theory Spec2Isabelle
  imports Complex_Main
begin

section \<open>Files, processes and the notebook's world\<close>

text \<open>
  The notebooks are linear scripts that talk to the outside only through named files and
  external commands.  The world a cell runs in is the file system (file name to content)
  together with the trace of the effects performed so far, oldest first.
\<close>

type_synonym files = "string \<rightharpoonup> string"

datatype event =
    Open string
  | Write string string
  | Spawn string
  | Exited string int
  | Display string

record world =
  files :: files
  trace :: "event list"

text \<open>\<^verbatim>\<open>open(filename, 'w')\<close> creates or truncates the file.\<close>

definition open_w :: "string \<Rightarrow> world \<Rightarrow> world" where
  "open_w filename w =
     w\<lparr>files := (files w)(filename \<mapsto> []), trace := trace w @ [Open filename]\<rparr>"

text \<open>\<^verbatim>\<open>f.write(s)\<close> appends \<open>s\<close> to what the open file holds.\<close>

definition f_write :: "string \<Rightarrow> string \<Rightarrow> world \<Rightarrow> world" where
  "f_write filename s w =
     w\<lparr>files := (files w)(filename \<mapsto>
                (case files w filename of None \<Rightarrow> [] | Some old \<Rightarrow> old) @ s),
       trace := trace w @ [Write filename s]\<rparr>"

section \<open>The run-control file\<close>

text \<open>Python's \<^verbatim>\<open>"\n".join(ls)\<close>: a text as its lines.\<close>

fun join_lines :: "string list \<Rightarrow> string" where
  "join_lines [] = []"
| "join_lines [l] = l"
| "join_lines (l # m # ls) = l @ CHR 0x0A # join_lines (m # ls)"

text \<open>
  The text literal of \<^verbatim>\<open>write_gmx_mdp\<close> (trappe-propane.ipynb), line by line with the
  blanks of the source kept.  The literal opens with a line break, right after the
  triple quote, and ends without one.
\<close>

definition mdp_lines :: "string list" where
  "mdp_lines =
    [''title                     = NVT Equilibration'',
     ''; Run parameters'',
     ''integrator                = md        ; leap-frog integrator'',
     ''nsteps                    = 100000     ; 2 * 5000 = 10ps'',
     ''dt                        = 0.002     ; 2 fs'',
     '''',
     ''; Output control'',
     ''nstxout                   = 500       ; Every 1.0 ps'',
     ''nstvout                   = 500'',
     ''nstenergy                 = 500'',
     ''nstlog                    = 500'',
     '''',
     '';Bond parameters'',
     ''continuation              = no'',
     ''constraint_algorithm    = lincs'',
     ''constraints             =   all-bonds'',
     ''lincs_iter              = 1'',
     ''lincs_order             = 4'',
     '''',
     ''; Neighbor searching'',
     ''cutoff-scheme           = Verlet'',
     ''nstype                  = grid'',
     ''nstlist                 = 10'',
     ''rcoulomb                = 1.4'',
     ''rvdw                    = 1.4'',
     '''',
     ''; Electrostatics'',
     ''coulombtype             = PME'',
     ''pme_order               = 4'',
     ''fourierspacing          = 0.16'',
     '''',
     ''; Temperature coupling'',
     ''tcoupl                  = nose-hoover'',
     ''tc-grps                 = system'',
     ''tau_t                   = 0.4  '',
     ''ref_t                   = 300  '',
     '''',
     ''; Pressure coupling'',
     ''pcoupl                 = no'',
     '''',
     '';Periodic boundary conditions'',
     ''pbc                     = xyz'',
     '''',
     '';Dispersion correction'',
     ''DispCorr                = EnerPres'',
     '''',
     '';Velocity generation'',
     ''gen_vel                 = yes'',
     ''gen_temp                = 300'',
     ''gen_seed                = -1'']"

definition mdp_text :: string where
  "mdp_text = CHR 0x0A # join_lines mdp_lines"

text \<open>
  \<^verbatim>\<open>
  def write_gmx_mdp(filename):
      with open(filename, 'w') as f:
          f.write(<the literal>)
  \<close>
\<close>

definition write_gmx_mdp :: "string \<Rightarrow> world \<Rightarrow> world" where
  "write_gmx_mdp filename w = f_write filename mdp_text (open_w filename w)"

text \<open>
  The run-control template that the repository also keeps as a file of its own: the same
  fifty lines, from \<^verbatim>\<open>title\<close> to \<^verbatim>\<open>gen_seed\<close>, with no line break before the first
  or after the last.
\<close>

definition template_lines :: "string list" where
  "template_lines =
    [''title                     = NVT Equilibration'',
     ''; Run parameters'',
     ''integrator                = md        ; leap-frog integrator'',
     ''nsteps                    = 100000     ; 2 * 5000 = 10ps'',
     ''dt                        = 0.002     ; 2 fs'',
     '''',
     ''; Output control'',
     ''nstxout                   = 500       ; Every 1.0 ps'',
     ''nstvout                   = 500'',
     ''nstenergy                 = 500'',
     ''nstlog                    = 500'',
     '''',
     '';Bond parameters'',
     ''continuation              = no'',
     ''constraint_algorithm    = lincs'',
     ''constraints             =   all-bonds'',
     ''lincs_iter              = 1'',
     ''lincs_order             = 4'',
     '''',
     ''; Neighbor searching'',
     ''cutoff-scheme           = Verlet'',
     ''nstype                  = grid'',
     ''nstlist                 = 10'',
     ''rcoulomb                = 1.4'',
     ''rvdw                    = 1.4'',
     '''',
     ''; Electrostatics'',
     ''coulombtype             = PME'',
     ''pme_order               = 4'',
     ''fourierspacing          = 0.16'',
     '''',
     ''; Temperature coupling'',
     ''tcoupl                  = nose-hoover'',
     ''tc-grps                 = system'',
     ''tau_t                   = 0.4  '',
     ''ref_t                   = 300  '',
     '''',
     ''; Pressure coupling'',
     ''pcoupl                 = no'',
     '''',
     '';Periodic boundary conditions'',
     ''pbc                     = xyz'',
     '''',
     '';Dispersion correction'',
     ''DispCorr                = EnerPres'',
     '''',
     '';Velocity generation'',
     ''gen_vel                 = yes'',
     ''gen_temp                = 300'',
     ''gen_seed                = -1'']"

definition template_text :: string where
  "template_text = join_lines template_lines"

subsection \<open>Reading directives back\<close>

text \<open>
  The engine's run-control format has one directive per line, \<^verbatim>\<open>key = value\<close>, and a
  semicolon starts a comment.  These functions read a text the way the engine does, so
  that a claim about "the value on a directive line" can be stated.
\<close>

definition is_space :: "char \<Rightarrow> bool" where
  "is_space c = (c = CHR '' '' \<or> c = CHR 0x09)"

definition strip :: "string \<Rightarrow> string" where
  "strip s = rev (dropWhile is_space (rev (dropWhile is_space s)))"

fun split_acc :: "char \<Rightarrow> string \<Rightarrow> string \<Rightarrow> string list" where
  "split_acc c acc [] = [rev acc]"
| "split_acc c acc (x # xs) =
     (if x = c then rev acc # split_acc c [] xs else split_acc c (x # acc) xs)"

definition split_on :: "char \<Rightarrow> string \<Rightarrow> string list" where
  "split_on c s = split_acc c [] s"

definition directive_of_line :: "string \<Rightarrow> (string \<times> string) option" where
  "directive_of_line l =
     (let body = takeWhile (\<lambda>c. c \<noteq> CHR '';'') l in
      if CHR ''='' \<in> set body
      then Some (strip (takeWhile (\<lambda>c. c \<noteq> CHR ''='') body),
                 strip (tl (dropWhile (\<lambda>c. c \<noteq> CHR ''='') body)))
      else None)"

definition directives :: "string \<Rightarrow> (string \<times> string) list" where
  "directives text = List.map_filter directive_of_line (split_on (CHR 0x0A) text)"

text \<open>
  The renderer as the specification words it: a fixed template with substitutable fields,
  where a directive that is overridden takes the override and every other directive keeps
  the template's value.
\<close>

definition render_spec :: "string \<Rightarrow> (string \<times> string) list \<Rightarrow> (string \<times> string) list" where
  "render_spec template overrides =
     map (\<lambda>(k, v). (k, case map_of overrides k of Some v' \<Rightarrow> v' | None \<Rightarrow> v))
       (directives template)"

section \<open>Invoking the engine\<close>

text \<open>
  What an external command leaves behind once it has exited: its exit status and what it
  printed on its two output streams.
\<close>

record proc =
  returncode :: int
  out :: string
  err :: string

text \<open>
  The external commands are not part of the repository, so they are a parameter: a shell
  takes a command line and the file system and, if the command ever exits, gives its
  result and the file system it leaves.  \<open>None\<close> is a command that never exits.
\<close>

type_synonym shell = "string \<Rightarrow> files \<Rightarrow> (proc \<times> files) option"

text \<open>
  A cell either returns or blocks forever in a call that does not come back; the world
  reached is kept in both cases.
\<close>

datatype 'a run = Hangs world | Returns 'a

text \<open>
  \<^verbatim>\<open>
  p = subprocess.Popen(cmd, shell=True, universal_newlines=True,
                       stdout=subprocess.PIPE, stderr=subprocess.PIPE)
  out, err = p.communicate()
  \<close>
  \<^verbatim>\<open>communicate\<close> reads both pipes to their end and waits for the process, with no timeout.
\<close>

definition Popen_communicate :: "shell \<Rightarrow> string \<Rightarrow> world \<Rightarrow> ((string \<times> string) \<times> world) run" where
  "Popen_communicate sh cmd w =
     (let w' = w\<lparr>trace := trace w @ [Spawn cmd]\<rparr> in
      case sh cmd (files w) of
        None \<Rightarrow> Hangs w'
      | Some (p, fs) \<Rightarrow>
          Returns ((out p, err p),
                   w'\<lparr>files := fs, trace := trace w' @ [Exited cmd (returncode p)]\<rparr>))"

definition grompp_cmd :: string where
  "grompp_cmd = ''gmx grompp -f nvt.mdp -c out.gro -p out.top -maxwarn 1 -o nvt''"

definition mdrun_cmd :: string where
  "mdrun_cmd = ''gmx mdrun -deffnm nvt''"

text \<open>
  The cell of trappe-propane.ipynb that runs the simulation:
  \<^verbatim>\<open>
  write_gmx_mdp('nvt.mdp')
  grompp_cmd = 'gmx grompp -f nvt.mdp -c out.gro -p out.top -maxwarn 1 -o nvt'
  p = subprocess.Popen(grompp_cmd, ...)
  out, err = p.communicate()
  with open('grompp.out', 'w') as f:
      f.write(out)
  with open('grompp.err', 'w') as f:
      f.write(err)

  mdrun_cmd = 'gmx mdrun -deffnm nvt'
  p = subprocess.Popen(mdrun_cmd, ...)
  out, err = p.communicate()
  with open('mdrun.out', 'w') as f:
      f.write(out)
  with open('mdrun.err', 'w') as f:
      f.write(err)
  \<close>
  The exit status of the first process is never read.
\<close>

definition engine_cell :: "shell \<Rightarrow> world \<Rightarrow> world run" where
  "engine_cell sh w0 =
     (let w1 = write_gmx_mdp ''nvt.mdp'' w0 in
      case Popen_communicate sh grompp_cmd w1 of
        Hangs h \<Rightarrow> Hangs h
      | Returns ((out1, err1), w2) \<Rightarrow>
          (let w3 = f_write ''grompp.out'' out1 (open_w ''grompp.out'' w2);
               w4 = f_write ''grompp.err'' err1 (open_w ''grompp.err'' w3) in
           case Popen_communicate sh mdrun_cmd w4 of
             Hangs h \<Rightarrow> Hangs h
           | Returns ((out2, err2), w5) \<Rightarrow>
               (let w6 = f_write ''mdrun.out'' out2 (open_w ''mdrun.out'' w5);
                    w7 = f_write ''mdrun.err'' err2 (open_w ''mdrun.err'' w6) in
                Returns w7)))"

text \<open>The world a run ends in, returned or not.\<close>

fun final_world :: "world run \<Rightarrow> world" where
  "final_world (Hangs w) = w"
| "final_world (Returns w) = w"

text \<open>
  The CHARMM-GUI notebook starts the engine with the notebook's shell escape instead,
  \<^verbatim>\<open>!gmx grompp ...\<close>: the command runs to its end while its output goes to the cell's
  display; nothing is captured and no file is written by the notebook.
\<close>

definition shell_escape :: "shell \<Rightarrow> string \<Rightarrow> world \<Rightarrow> world run" where
  "shell_escape sh cmd w =
     (let w' = w\<lparr>trace := trace w @ [Spawn cmd]\<rparr> in
      case sh cmd (files w) of
        None \<Rightarrow> Hangs w'
      | Some (p, fs) \<Rightarrow>
          Returns (w'\<lparr>files := fs,
                      trace := trace w' @ [Display (out p), Display (err p),
                                           Exited cmd (returncode p)]\<rparr>))"

definition then_run :: "world run \<Rightarrow> (world \<Rightarrow> world run) \<Rightarrow> world run" where
  "then_run r f = (case r of Hangs h \<Rightarrow> Hangs h | Returns w \<Rightarrow> f w)"

text \<open>
  The four engine cells of charmm-gui-gmx.ipynb, in notebook order:
  \<^verbatim>\<open>
  !gmx grompp -f files/em.mdp -c box.gro -p box.top -o em -maxwarn 1
  !gmx mdrun -deffnm em
  !gmx grompp -f files/npt.mdp -c em.gro -p box.top -o npt
  !gmx mdrun -deffnm npt
  \<close>
\<close>

definition charmm_engine_cells :: "shell \<Rightarrow> world \<Rightarrow> world run" where
  "charmm_engine_cells sh w0 =
     then_run (then_run (then_run
       (shell_escape sh ''gmx grompp -f files/em.mdp -c box.gro -p box.top -o em -maxwarn 1'' w0)
       (shell_escape sh ''gmx mdrun -deffnm em''))
       (shell_escape sh ''gmx grompp -f files/npt.mdp -c em.gro -p box.top -o npt''))
       (shell_escape sh ''gmx mdrun -deffnm npt'')"

text \<open>
  Two concrete shells for the examples.  With the first, the preprocess step fails with
  status 1 and a message on its error stream, and the run step, if it is started, succeeds.
  Neither command touches a file.
\<close>

definition failing_grompp :: shell where
  "failing_grompp cmd fs =
     (if cmd = grompp_cmd
      then Some (\<lparr>returncode = 1, out = ''grompp'', err = ''Fatal error''\<rparr>, fs)
      else Some (\<lparr>returncode = 0, out = ''done'', err = ''''\<rparr>, fs))"

text \<open>With the second, every command prints on both streams and exits with status 0.\<close>

definition chatty_shell :: shell where
  "chatty_shell cmd fs = Some (\<lparr>returncode = 0, out = ''o'', err = ''e''\<rparr>, fs)"

definition empty_world :: world where
  "empty_world = \<lparr>files = Map.empty, trace = []\<rparr>"

section \<open>Compounds\<close>

text \<open>
  Modelled from the spec: the builder library's \<^verbatim>\<open>Compound\<close> and its operations, which
  the notebooks call and which are not among the sources.  A compound is a named node
  with a position, an ordered list of children and a bond graph.  A node without children is a particle.  The bond graph is
  kept by the root of a hierarchy; a bond is a pair of indices into the root's particles,
  in the order \<^verbatim>\<open>particles()\<close> yields them.  Coordinates are exact rationals here; the
  library holds them as floating-point numbers.
\<close>

type_synonym vec = "rat \<times> rat \<times> rat"

datatype compound =
  Compound (name: string) (pos: vec) (children: "compound list") (bond_graph: "(nat \<times> nat) list")

datatype error = IndexError | ValueError | RuntimeError

definition origin :: vec where
  "origin = (0, 0, 0)"

text \<open>\<^verbatim>\<open>mb.Compound()\<close> and \<^verbatim>\<open>mb.Particle(name=...)\<close>.\<close>

definition empty_compound :: compound where
  "empty_compound = Compound ''Compound'' origin [] []"

definition Particle :: "string \<Rightarrow> compound" where
  "Particle nm = Compound nm origin [] []"

text \<open>\<^verbatim>\<open>particles()\<close>: the leaves from left to right; a compound without children is its own
  only particle.\<close>

fun particles :: "compound \<Rightarrow> compound list" where
  "particles (Compound nm p cs b) =
     (if cs = [] then [Compound nm p cs b] else concat (map particles cs))"

definition n_particles :: "compound \<Rightarrow> nat" where
  "n_particles c = length (particles c)"

definition n_bonds :: "compound \<Rightarrow> nat" where
  "n_bonds c = length (bond_graph c)"

text \<open>
  \<^verbatim>\<open>parent.add(child)\<close>: the child becomes the last child, and its bonds move to the
  parent's graph, renumbered by the particles that come before it.
\<close>

definition add :: "compound \<Rightarrow> compound \<Rightarrow> compound" where
  "add parent child =
     (let k = length (concat (map particles (children parent))) in
      Compound (name parent) (pos parent)
        (children parent @ [Compound (name child) (pos child) (children child) []])
        (bond_graph parent @ map (\<lambda>(i, j). (k + i, k + j)) (bond_graph child)))"

text \<open>\<^verbatim>\<open>mb.Compound(subcompounds)\<close> adds the given compounds one after the other.\<close>

definition Compound_of :: "compound list \<Rightarrow> compound" where
  "Compound_of subcompounds = foldl add empty_compound subcompounds"

text \<open>
  \<^verbatim>\<open>add_bond((p, q))\<close> adds an edge to the bond graph; the graph has no parallel edges, so
  a pair that is already bonded stays as it is.
\<close>

definition add_bond :: "nat \<times> nat \<Rightarrow> compound \<Rightarrow> compound" where
  "add_bond b c =
     (if b \<in> set (bond_graph c) \<or> (snd b, fst b) \<in> set (bond_graph c) then c
      else Compound (name c) (pos c) (children c) (bond_graph c @ [b]))"

text \<open>\<^verbatim>\<open>translate(by)\<close> moves every particle.\<close>

definition vadd :: "vec \<Rightarrow> vec \<Rightarrow> vec" where
  "vadd u v = (case (u, v) of ((x, y, z), (x', y', z')) \<Rightarrow> (x + x', y + y', z + z'))"

fun translate :: "vec \<Rightarrow> compound \<Rightarrow> compound" where
  "translate by (Compound nm p cs b) =
     (if cs = [] then Compound nm (vadd p by) [] b
      else Compound nm p (map (translate by) cs) b)"

text \<open>
  Assigning \<^verbatim>\<open>particles[i].name\<close>: the \<open>i\<close>-th particle of the hierarchy gets the name
  \<open>f\<close> makes of its old one; an index past the last particle changes nothing here, the
  caller checks the range.
\<close>

fun rename_particle :: "nat \<Rightarrow> (string \<Rightarrow> string) \<Rightarrow> compound \<Rightarrow> compound"
  and rename_among :: "nat \<Rightarrow> (string \<Rightarrow> string) \<Rightarrow> compound list \<Rightarrow> compound list" where
  "rename_particle i f (Compound nm p cs b) =
     (if cs = [] then (if i = 0 then Compound (f nm) p [] b else Compound nm p [] b)
      else Compound nm p (rename_among i f cs) b)"
| "rename_among i f [] = []"
| "rename_among i f (c # cs) =
     (if i < length (particles c) then rename_particle i f c # cs
      else c # rename_among (i - length (particles c)) f cs)"

subsection \<open>Editing the propane prototype\<close>

text \<open>
  \<^verbatim>\<open>
  particles = [a for a in cmpd.particles()]
  particles[0].name = "_" + particles[0].name[1:]
  particles[1].name = "_" + particles[1].name
  particles[2].name = "_" + particles[2].name[1:]
  cmpd.add_bond((particles[0], particles[1]))
  cmpd.add_bond((particles[1], particles[2]))
  \<close>
  Indexing the list past its end raises \<^verbatim>\<open>IndexError\<close>; slicing a name never raises.
\<close>

definition rename_and_bond :: "compound \<Rightarrow> error + compound" where
  "rename_and_bond cmpd =
     (let n = length (particles cmpd) in
      if n \<le> 0 then Inl IndexError
      else let c1 = rename_particle 0 (\<lambda>s. ''_'' @ drop 1 s) cmpd in
      if n \<le> 1 then Inl IndexError
      else let c2 = rename_particle 1 (\<lambda>s. ''_'' @ s) c1 in
      if n \<le> 2 then Inl IndexError
      else let c3 = rename_particle 2 (\<lambda>s. ''_'' @ drop 1 s) c2 in
      Inr (add_bond (1, 2) (add_bond (0, 1) c3)))"

subsection \<open>Lattice replication\<close>

text \<open>
  Modelled from the spec: the builder library's lattice pattern, not among the sources.
  \<^verbatim>\<open>mb.Grid3DPattern(n, m, l)\<close> holds the points \<open>(i/n, j/m, k/l)\<close>, \<^verbatim>\<open>scale\<close> multiplies
  them, and \<^verbatim>\<open>apply\<close> gives one translated copy of the compound per point.
\<close>

definition Grid3DPattern :: "nat \<Rightarrow> nat \<Rightarrow> nat \<Rightarrow> vec list" where
  "Grid3DPattern n m l =
     concat (map (\<lambda>i. concat (map (\<lambda>j. map (\<lambda>k.
       (of_nat i / of_nat n, of_nat j / of_nat m, of_nat k / of_nat l))
       [0..<l]) [0..<m])) [0..<n])"

definition scale :: "rat \<Rightarrow> vec list \<Rightarrow> vec list" where
  "scale by points = map (\<lambda>(x, y, z). (x * by, y * by, z * by)) points"

definition apply_pattern :: "vec list \<Rightarrow> compound \<Rightarrow> compound list" where
  "apply_pattern points c = map (\<lambda>p. translate p c) points"

text \<open>
  The replication cell of the HOOMD notebook, for the compound it is given:
  \<^verbatim>\<open>
  methane_grid = mb.Grid3DPattern(2, 2, 2)
  methane_grid.scale(0.4)
  list_of_methanes = methane_grid.apply(methane_cmpd)
  methane_box = mb.Compound(list_of_methanes)
  \<close>
\<close>

definition methane_grid :: "vec list" where
  "methane_grid = scale (2 / 5) (Grid3DPattern 2 2 2)"

definition replicate_on_grid :: "compound \<Rightarrow> compound" where
  "replicate_on_grid c = Compound_of (apply_pattern methane_grid c)"

text \<open>\<^verbatim>\<open>max(box.xyz[:, 2])\<close>; \<^verbatim>\<open>max\<close> of nothing raises \<^verbatim>\<open>ValueError\<close>.\<close>

definition max_z :: "compound \<Rightarrow> error + rat" where
  "max_z c =
     (case map (\<lambda>p. snd (snd (pos p))) (particles c) of
        [] \<Rightarrow> Inl ValueError
      | z # zs \<Rightarrow> Inr (fold max zs z))"

text \<open>
  The three cells that build the mixture, with the scale given to \<^verbatim>\<open>methanol_grid\<close> as
  the parameter \<open>s\<close> (the notebook passes \<^verbatim>\<open>0.4\<close>):
  \<^verbatim>\<open>
  methane_grid = mb.Grid3DPattern(2, 2, 2)
  methane_grid.scale(0.4)
  list_of_methanes = methane_grid.apply(methane_cmpd)
  methane_box = mb.Compound(list_of_methanes)

  methanol_grid = mb.Grid3DPattern(2, 2, 2)
  methanol_grid.scale(s)
  list_of_methanols = methane_grid.apply(methanol)
  methanol_box = mb.Compound(list_of_methanols)
  methanol_box.translate([0, 0, 1.1*max(methane_box.xyz[:, 2])])

  mixture_box = mb.Compound([methane_box, methanol_box])
  \<close>
\<close>

definition mixture_box :: "rat \<Rightarrow> compound \<Rightarrow> compound \<Rightarrow> error + compound" where
  "mixture_box s methane_cmpd methanol =
     (let list_of_methanes = apply_pattern methane_grid methane_cmpd;
          methane_box = Compound_of list_of_methanes;
          methanol_grid = scale s (Grid3DPattern 2 2 2);
          list_of_methanols = apply_pattern methane_grid methanol;
          methanol_box = Compound_of list_of_methanols
      in case max_z methane_box of
           Inl e \<Rightarrow> Inl e
         | Inr z \<Rightarrow>
             Inr (Compound_of [methane_box, translate (0, 0, (11 / 10) * z) methanol_box]))"

subsection \<open>What an edit leaves alone\<close>

text \<open>
  To say that an edit touches nothing but particle names and the bond list, the two are
  wiped: \<open>set_name\<close> replaces the name of one node, \<open>blank_names\<close> empties the name of
  every particle of a hierarchy and \<open>without_bonds\<close> empties the root's bond graph.  Two
  compounds that agree after both differ in particle names and bonds only.
\<close>

definition set_name :: "(string \<Rightarrow> string) \<Rightarrow> compound \<Rightarrow> compound" where
  "set_name f c = Compound (f (name c)) (pos c) (children c) (bond_graph c)"

fun blank_names :: "compound \<Rightarrow> compound" where
  "blank_names (Compound nm p cs b) =
     (if cs = [] then Compound [] p [] b else Compound nm p (map blank_names cs) b)"

definition without_bonds :: "compound \<Rightarrow> compound" where
  "without_bonds c = Compound (name c) (pos c) (children c) []"

text \<open>
  A prototype of the kind the propane notebook loads, for the examples: three particles
  in a row under one compound, no bonds.
\<close>

definition propane_example :: compound where
  "propane_example =
     Compound ''Pro'' origin
       [Compound ''1CH3'' (0, 0, 0) [] [],
        Compound ''C'' (3 / 20, 0, 0) [] [],
        Compound ''3CH3'' (3 / 10, 0, 0) [] []] []"

section \<open>Element inference in the typer\<close>

text \<open>The particles the HOOMD notebook builds by hand:
  \<^verbatim>\<open>
  methane_cmpd = mb.Compound()
  methane_particle = mb.Particle(name="_CH4")
  methane_cmpd.add(methane_particle)
  ch3 = mb.Particle(name="_CH3")
  oh = mb.Particle(name="_OH")
  \<close>
\<close>

definition methane_particle :: compound where
  "methane_particle = Particle ''_CH4''"

definition methane_cmpd :: compound where
  "methane_cmpd = add empty_compound methane_particle"

definition ch3 :: compound where
  "ch3 = Particle ''_CH3''"

definition oh :: compound where
  "oh = Particle ''_OH''"

datatype particle_kind = Element string | CustomBead string

definition periodic_symbols :: "string list" where
  "periodic_symbols =
    [''H'', ''He'', ''Li'', ''Be'', ''B'', ''C'', ''N'', ''O'', ''F'', ''Ne'',
     ''Na'', ''Mg'', ''Al'', ''Si'', ''P'', ''S'', ''Cl'', ''Ar'', ''K'', ''Ca'',
     ''Sc'', ''Ti'', ''V'', ''Cr'', ''Mn'', ''Fe'', ''Co'', ''Ni'', ''Cu'', ''Zn'',
     ''Ga'', ''Ge'', ''As'', ''Se'', ''Br'', ''Kr'', ''Rb'', ''Sr'', ''Y'', ''Zr'',
     ''Nb'', ''Mo'', ''Tc'', ''Ru'', ''Rh'', ''Pd'', ''Ag'', ''Cd'', ''In'', ''Sn'',
     ''Sb'', ''Te'', ''I'', ''Xe'', ''Cs'', ''Ba'', ''La'', ''Ce'', ''Pr'', ''Nd'',
     ''Pm'', ''Sm'', ''Eu'', ''Gd'', ''Tb'', ''Dy'', ''Ho'', ''Er'', ''Tm'', ''Yb'',
     ''Lu'', ''Hf'', ''Ta'', ''W'', ''Re'', ''Os'', ''Ir'', ''Pt'', ''Au'', ''Hg'',
     ''Tl'', ''Pb'', ''Bi'', ''Po'', ''At'', ''Rn'', ''Fr'', ''Ra'', ''Ac'', ''Th'',
     ''Pa'', ''U'', ''Np'', ''Pu'', ''Am'', ''Cm'', ''Bk'', ''Cf'', ''Es'', ''Fm'',
     ''Md'', ''No'', ''Lr'', ''Rf'', ''Db'', ''Sg'', ''Bh'', ''Hs'', ''Mt'', ''Ds'',
     ''Rg'', ''Cn'', ''Nh'', ''Fl'', ''Mc'', ''Lv'', ''Ts'', ''Og'']"

text \<open>
  Modelled from the spec: the element inference of the force-field typer, which belongs
  to the typing library and is not among the sources.  The specification makes the
  leading underscore a reserved marker: a name that carries it is a custom bead and is
  never looked up; the notebook's own text adds that a name from which no periodic
  element can be inferred gets a custom element too.  Any other name is looked up among
  the element symbols.
\<close>

definition infer_kind :: "string \<Rightarrow> particle_kind" where
  "infer_kind nm =
     (if take 1 nm = ''_'' then CustomBead nm
      else if nm \<in> set periodic_symbols then Element nm
      else CustomBead nm)"

section \<open>Radial distribution functions over a trajectory\<close>

text \<open>A frame of the trajectory file, as far as the analysis cell reads it.\<close>

record frame =
  box :: vec
  types :: "string list"
  typeid :: "nat list"
  position :: "vec list"

text \<open>
  \<^verbatim>\<open>
  def get_ids(frame, typename):
      return np.where(frame.particles.typeid == frame.particles.types.index(typename))[0]
  \<close>
  \<^verbatim>\<open>index\<close> gives the first place of the name and raises \<^verbatim>\<open>ValueError\<close> when the name is
  not a type of the frame.
\<close>

definition get_ids :: "frame \<Rightarrow> string \<Rightarrow> error + nat list" where
  "get_ids f typename =
     (if typename \<in> set (types f)
      then Inr (filter (\<lambda>i. typeid f ! i = length (takeWhile (\<lambda>t. t \<noteq> typename) (types f)))
                  [0..<length (typeid f)])
      else Inl ValueError)"

text \<open>\<^verbatim>\<open>np.array(frame.particles.position[ids])\<close>; an index past the array raises.\<close>

definition positions_at :: "frame \<Rightarrow> nat list \<Rightarrow> error + vec list" where
  "positions_at f ids =
     (if list_all (\<lambda>i. i < length (position f)) ids
      then Inr (map (\<lambda>i. position f ! i) ids)
      else Inl IndexError)"

text \<open>
  Modelled from the spec: the binned pairwise observable of the analysis library, which
  is not among the sources.  The object holds one count per bin.  For one frame, every
  ordered pair of distinct points whose distance, by the nearest image in the periodic
  box, is below \<^verbatim>\<open>r_max\<close> adds one to the bin its distance falls in; bins have equal
  width.  Distances are compared by their squares.
\<close>

record rdf =
  bins :: nat
  r_max :: rat
  bin_counts :: "nat list"
  frame_counter :: nat

definition RDF :: "nat \<Rightarrow> rat \<Rightarrow> rdf" where
  "RDF b r = \<lparr>bins = b, r_max = r, bin_counts = replicate b 0, frame_counter = 0\<rparr>"

definition nearest_image :: "rat \<Rightarrow> rat \<Rightarrow> rat" where
  "nearest_image l d = (if l = 0 then d else d - l * of_int (round (d / l)))"

definition dist2 :: "vec \<Rightarrow> vec \<Rightarrow> vec \<Rightarrow> rat" where
  "dist2 bx u v =
     (case (bx, u, v) of ((lx, ly, lz), (x, y, z), (x', y', z')) \<Rightarrow>
        (nearest_image lx (x - x'))\<^sup>2 + (nearest_image ly (y - y'))\<^sup>2
          + (nearest_image lz (z - z'))\<^sup>2)"

definition bin_of :: "nat \<Rightarrow> rat \<Rightarrow> rat \<Rightarrow> nat" where
  "bin_of b r d2 = length (filter (\<lambda>k. (of_nat k * r / of_nat b)\<^sup>2 \<le> d2) [1..<b])"

definition pair_histogram :: "nat \<Rightarrow> rat \<Rightarrow> vec \<times> vec list \<Rightarrow> nat list" where
  "pair_histogram b r system =
     (case system of (bx, points) \<Rightarrow>
        (let pairs = concat (map (\<lambda>i. map (\<lambda>j. (i, j))
                       (filter (\<lambda>j. j \<noteq> i) [0..<length points])) [0..<length points]);
             near = filter (\<lambda>d2. d2 < r\<^sup>2)
                      (map (\<lambda>(i, j). dist2 bx (points ! i) (points ! j)) pairs)
         in map (\<lambda>k. length (filter (\<lambda>d2. bin_of b r d2 = k) near)) [0..<b]))"

text \<open>
  Modelled from the spec: \<^verbatim>\<open>compute(system, reset)\<close>.  The library refuses a system
  whose box is less than twice \<^verbatim>\<open>r_max\<close> wide in some direction, and a system with no
  point; both raise.  Otherwise, with \<^verbatim>\<open>reset=False\<close> the counts of the frame are added
  to what the object already holds; with \<^verbatim>\<open>reset=True\<close> the object is emptied first.
\<close>

definition compute :: "vec \<times> vec list \<Rightarrow> bool \<Rightarrow> rdf \<Rightarrow> error + rdf" where
  "compute system reset r =
     (case system of (bx, points) \<Rightarrow>
      case bx of (lx, ly, lz) \<Rightarrow>
        if lx < 2 * r_max r \<or> ly < 2 * r_max r \<or> lz < 2 * r_max r then Inl RuntimeError
        else if points = [] then Inl RuntimeError
        else
          (let r0 = (if reset
                     then r\<lparr>bin_counts := replicate (bins r) 0, frame_counter := 0\<rparr>
                     else r)
           in Inr (r0\<lparr>bin_counts := map2 (+) (bin_counts r0)
                                        (pair_histogram (bins r0) (r_max r0) system),
                       frame_counter := Suc (frame_counter r0)\<rparr>)))"

text \<open>
  The analysis cells:
  \<^verbatim>\<open>
  bins = 50
  r_max = 2
  ch3_ch3_rdf = freud.density.RDF(bins, r_max)
  ch4_ch4_rdf = freud.density.RDF(bins, r_max)
  oh_oh_rdf = freud.density.RDF(bins, r_max)

  for frame in hoomd_traj:
      ch3_particles = get_ids(frame, 'CH3')
      ch4_particles = get_ids(frame, 'CH4')
      oh_particles = get_ids(frame, 'OH')

      ch3_positions = np.array(frame.particles.position[ch3_particles])
      ch4_positions = np.array(frame.particles.position[ch4_particles])
      oh_positions = np.array(frame.particles.position[oh_particles])

      ch3_ch3_rdf.compute(system=(frame.configuration.box, ch3_positions), reset=False)
      ch4_ch4_rdf.compute(system=(frame.configuration.box, ch4_positions), reset=False)
      oh_oh_rdf.compute(system=(frame.configuration.box, oh_positions), reset=False)
  \<close>
  The state of the loop is the three objects, in this order.
\<close>

definition fresh_rdfs :: "rdf \<times> rdf \<times> rdf" where
  "fresh_rdfs = (RDF 50 2, RDF 50 2, RDF 50 2)"

text \<open>A statement that raises ends the cell; otherwise the next one runs.\<close>

definition and_then :: "error + 'a \<Rightarrow> ('a \<Rightarrow> error + 'b) \<Rightarrow> error + 'b" where
  "and_then r k = (case r of Inl e \<Rightarrow> Inl e | Inr x \<Rightarrow> k x)"

definition rdf_step :: "frame \<Rightarrow> rdf \<times> rdf \<times> rdf \<Rightarrow> error + (rdf \<times> rdf \<times> rdf)" where
  "rdf_step f st =
     (case st of (ch3_ch3_rdf, ch4_ch4_rdf, oh_oh_rdf) \<Rightarrow>
      and_then (get_ids f ''CH3'') (\<lambda>ch3_particles.
      and_then (get_ids f ''CH4'') (\<lambda>ch4_particles.
      and_then (get_ids f ''OH'') (\<lambda>oh_particles.
      and_then (positions_at f ch3_particles) (\<lambda>ch3_positions.
      and_then (positions_at f ch4_particles) (\<lambda>ch4_positions.
      and_then (positions_at f oh_particles) (\<lambda>oh_positions.
      and_then (compute (box f, ch3_positions) False ch3_ch3_rdf) (\<lambda>r3.
      and_then (compute (box f, ch4_positions) False ch4_ch4_rdf) (\<lambda>r4.
      and_then (compute (box f, oh_positions) False oh_oh_rdf) (\<lambda>ro.
        Inr (r3, r4, ro)))))))))))"

fun rdf_loop :: "frame list \<Rightarrow> rdf \<times> rdf \<times> rdf \<Rightarrow> error + (rdf \<times> rdf \<times> rdf)" where
  "rdf_loop [] st = Inr st"
| "rdf_loop (f # fs) st = and_then (rdf_step f st) (rdf_loop fs)"

text \<open>The positions the loop selects for a type name.\<close>

definition selected :: "frame \<Rightarrow> string \<Rightarrow> vec list" where
  "selected f typename =
     map (\<lambda>i. position f ! i)
       (filter (\<lambda>i. typeid f ! i = length (takeWhile (\<lambda>t. t \<noteq> typename) (types f)))
          [0..<length (typeid f)])"

text \<open>
  A frame the loop can process: the three type names are types of the frame, every
  particle has a position, each of the three selections has a particle, and the box is
  more than twice \<^verbatim>\<open>r_max = 2\<close> wide in every direction.
\<close>

definition readable :: "frame \<Rightarrow> bool" where
  "readable f =
     (''CH3'' \<in> set (types f) \<and> ''CH4'' \<in> set (types f) \<and> ''OH'' \<in> set (types f)
      \<and> length (typeid f) \<le> length (position f)
      \<and> selected f ''CH3'' \<noteq> [] \<and> selected f ''CH4'' \<noteq> [] \<and> selected f ''OH'' \<noteq> []
      \<and> 4 < fst (box f) \<and> 4 < fst (snd (box f)) \<and> 4 < snd (snd (box f)))"

text \<open>
  Two frames for the examples, both in a box of side 5: a dilute one with one particle of
  each type, and one with two \<^verbatim>\<open>CH3\<close> particles at distance 1.
\<close>

definition dilute_frame :: frame where
  "dilute_frame =
     \<lparr>box = (5, 5, 5), types = [''CH4'', ''CH3'', ''OH''], typeid = [0, 1, 2],
      position = [(0, 0, 0), (1, 0, 0), (1, 1, 0)]\<rparr>"

definition paired_frame :: frame where
  "paired_frame =
     \<lparr>box = (5, 5, 5), types = [''CH4'', ''CH3'', ''OH''], typeid = [0, 1, 1, 2],
      position = [(0, 0, 0), (1, 0, 0), (1, 1, 0), (1, 1, 1)]\<rparr>"

text \<open>
  The bin counts of the three objects, their bin-wise sum, and the counts of three
  objects that have seen no pair.
\<close>

definition counts :: "rdf \<times> rdf \<times> rdf \<Rightarrow> nat list \<times> nat list \<times> nat list" where
  "counts st = (case st of (a, b, c) \<Rightarrow> (bin_counts a, bin_counts b, bin_counts c))"

definition add_counts ::
  "nat list \<times> nat list \<times> nat list \<Rightarrow> nat list \<times> nat list \<times> nat list
     \<Rightarrow> nat list \<times> nat list \<times> nat list" where
  "add_counts h h' =
     (case (h, h') of ((a, b, c), (a', b', c')) \<Rightarrow>
        (map2 (+) a a', map2 (+) b b', map2 (+) c c'))"

definition no_counts :: "nat list \<times> nat list \<times> nat list" where
  "no_counts = (replicate 50 0, replicate 50 0, replicate 50 0)"

section \<open>Properties of the run-control file\<close>

lemma split_acc_line:
  "c \<notin> set l \<Longrightarrow> split_acc c acc (l @ c # rest) = (rev acc @ l) # split_acc c [] rest"
  by (induction l arbitrary: acc) auto

lemma split_acc_last: "c \<notin> set l \<Longrightarrow> split_acc c acc l = [rev acc @ l]"
  by (induction l arbitrary: acc) auto

lemma split_join_lines:
  "ls \<noteq> [] \<Longrightarrow> list_all (\<lambda>l. CHR 0x0A \<notin> set l) ls \<Longrightarrow>
     split_on (CHR 0x0A) (join_lines ls) = ls"
proof (induction ls rule: join_lines.induct)
  case 1
  then show ?case by simp
next
  case (2 l)
  then show ?case by (simp add: split_on_def split_acc_last)
next
  case (3 l m ls)
  then show ?case by (simp add: split_on_def split_acc_line)
qed

lemma template_lines_no_break: "list_all (\<lambda>l. CHR 0x0A \<notin> set l) template_lines"
  by code_simp

lemma template_lines_directives:
  "List.map_filter directive_of_line template_lines =
    [(''title'', ''NVT Equilibration''), (''integrator'', ''md''),
     (''nsteps'', ''100000''), (''dt'', ''0.002''), (''nstxout'', ''500''),
     (''nstvout'', ''500''), (''nstenergy'', ''500''), (''nstlog'', ''500''),
     (''continuation'', ''no''), (''constraint_algorithm'', ''lincs''),
     (''constraints'', ''all-bonds''), (''lincs_iter'', ''1''),
     (''lincs_order'', ''4''), (''cutoff-scheme'', ''Verlet''),
     (''nstype'', ''grid''), (''nstlist'', ''10''), (''rcoulomb'', ''1.4''),
     (''rvdw'', ''1.4''), (''coulombtype'', ''PME''), (''pme_order'', ''4''),
     (''fourierspacing'', ''0.16''), (''tcoupl'', ''nose-hoover''),
     (''tc-grps'', ''system''), (''tau_t'', ''0.4''), (''ref_t'', ''300''),
     (''pcoupl'', ''no''), (''pbc'', ''xyz''), (''DispCorr'', ''EnerPres''),
     (''gen_vel'', ''yes''), (''gen_temp'', ''300''), (''gen_seed'', ''-1'')]"
  by code_simp

lemma template_lines_nonempty: "template_lines \<noteq> []"
  by (simp add: template_lines_def)

lemma directives_template:
  "directives template_text =
    [(''title'', ''NVT Equilibration''), (''integrator'', ''md''),
     (''nsteps'', ''100000''), (''dt'', ''0.002''), (''nstxout'', ''500''),
     (''nstvout'', ''500''), (''nstenergy'', ''500''), (''nstlog'', ''500''),
     (''continuation'', ''no''), (''constraint_algorithm'', ''lincs''),
     (''constraints'', ''all-bonds''), (''lincs_iter'', ''1''),
     (''lincs_order'', ''4''), (''cutoff-scheme'', ''Verlet''),
     (''nstype'', ''grid''), (''nstlist'', ''10''), (''rcoulomb'', ''1.4''),
     (''rvdw'', ''1.4''), (''coulombtype'', ''PME''), (''pme_order'', ''4''),
     (''fourierspacing'', ''0.16''), (''tcoupl'', ''nose-hoover''),
     (''tc-grps'', ''system''), (''tau_t'', ''0.4''), (''ref_t'', ''300''),
     (''pcoupl'', ''no''), (''pbc'', ''xyz''), (''DispCorr'', ''EnerPres''),
     (''gen_vel'', ''yes''), (''gen_temp'', ''300''), (''gen_seed'', ''-1'')]"
  unfolding directives_def template_text_def
    split_join_lines [OF template_lines_nonempty template_lines_no_break]
  by (rule template_lines_directives)

lemma mdp_lines_template: "mdp_lines = template_lines"
  unfolding mdp_lines_def template_lines_def by (rule refl)

lemma mdp_is_template: "mdp_text = CHR 0x0A # template_text"
  by (simp add: mdp_text_def template_text_def mdp_lines_template)

lemma directives_leading_break: "directives (CHR 0x0A # t) = directives t"
  by (simp add: directives_def split_on_def directive_of_line_def)

lemma directives_mdp: "directives mdp_text = directives template_text"
  by (simp add: mdp_is_template directives_leading_break)

lemma render_spec_overrides:
  "render_spec template_text [(''nsteps'', ''100000''), (''dt'', ''0.002''), (''ref_t'', ''300'')]
     = directives template_text"
  unfolding render_spec_def directives_template by simp

lemma files_write_gmx_mdp:
  "files (write_gmx_mdp filename w) = (files w)(filename \<mapsto> mdp_text)"
  by (simp add: write_gmx_mdp_def f_write_def open_w_def)

text \<open>
  Claim C10.  \<^verbatim>\<open>write_gmx_mdp\<close> writes one fixed text to the file it is given: whatever
  the world held before, the file then holds exactly that text and no other file changes,
  so two invocations write the same bytes; the function has no parameter besides the file
  name.  The text starts with a line break, and \<^verbatim>\<open>title\<close> comes right after it.
\<close>

theorem write_gmx_mdp_fixed_text:
  "files (write_gmx_mdp filename w) = (files w)(filename \<mapsto> mdp_text)
   \<and> files (write_gmx_mdp filename w) filename = files (write_gmx_mdp filename w') filename
   \<and> hd mdp_text = CHR 0x0A
   \<and> take 6 mdp_text = CHR 0x0A # ''title''
   \<and> mdp_text = CHR 0x0A # template_text"
proof -
  have "take 6 mdp_text = CHR 0x0A # ''title''"
    by (simp add: mdp_text_def mdp_lines_def)
  moreover have "hd mdp_text = CHR 0x0A"
    by (simp add: mdp_text_def)
  ultimately show ?thesis
    by (simp add: files_write_gmx_mdp mdp_is_template)
qed

text \<open>
  Claim C3.  The text that \<^verbatim>\<open>write_gmx_mdp\<close> leaves in the file reads back, directive by
  directive, as the template rendered with the overrides \<^verbatim>\<open>nsteps = 100000\<close>,
  \<^verbatim>\<open>dt = 0.002\<close> and \<^verbatim>\<open>ref_t = 300\<close>: these three lines carry exactly those values, and
  every other directive has the value of the template text.
\<close>

theorem write_gmx_mdp_renders_overrides:
  "directives (the (files (write_gmx_mdp filename w) filename))
     = render_spec template_text
         [(''nsteps'', ''100000''), (''dt'', ''0.002''), (''ref_t'', ''300'')]
   \<and> map_of (directives (the (files (write_gmx_mdp filename w) filename))) ''nsteps''
        = Some ''100000''
   \<and> map_of (directives (the (files (write_gmx_mdp filename w) filename))) ''dt''
        = Some ''0.002''
   \<and> map_of (directives (the (files (write_gmx_mdp filename w) filename))) ''ref_t''
        = Some ''300''"
proof -
  have w: "the (files (write_gmx_mdp filename w) filename) = mdp_text"
    by (simp add: files_write_gmx_mdp)
  have "map_of (directives template_text) ''nsteps'' = Some ''100000''"
    and "map_of (directives template_text) ''dt'' = Some ''0.002''"
    and "map_of (directives template_text) ''ref_t'' = Some ''300''"
    unfolding directives_template by simp_all
  then show ?thesis
    unfolding w directives_mdp render_spec_overrides by simp
qed

section \<open>Properties of the engine invocation\<close>

lemma engine_cell_summary:
  "engine_cell sh w0 =
    (case sh grompp_cmd ((files w0)(''nvt.mdp'' \<mapsto> mdp_text)) of
       None \<Rightarrow>
         Hangs (w0\<lparr>files := (files w0)(''nvt.mdp'' \<mapsto> mdp_text),
                    trace := trace w0 @ [Open ''nvt.mdp'', Write ''nvt.mdp'' mdp_text,
                                         Spawn grompp_cmd]\<rparr>)
     | Some (p1, fs1) \<Rightarrow>
        (case sh mdrun_cmd (fs1(''grompp.out'' \<mapsto> out p1, ''grompp.err'' \<mapsto> err p1)) of
           None \<Rightarrow>
             Hangs (w0\<lparr>files := fs1(''grompp.out'' \<mapsto> out p1, ''grompp.err'' \<mapsto> err p1),
                        trace := trace w0 @ [Open ''nvt.mdp'', Write ''nvt.mdp'' mdp_text,
                          Spawn grompp_cmd, Exited grompp_cmd (returncode p1),
                          Open ''grompp.out'', Write ''grompp.out'' (out p1),
                          Open ''grompp.err'', Write ''grompp.err'' (err p1),
                          Spawn mdrun_cmd]\<rparr>)
         | Some (p2, fs2) \<Rightarrow>
             Returns (w0\<lparr>files := fs2(''mdrun.out'' \<mapsto> out p2, ''mdrun.err'' \<mapsto> err p2),
                        trace := trace w0 @ [Open ''nvt.mdp'', Write ''nvt.mdp'' mdp_text,
                          Spawn grompp_cmd, Exited grompp_cmd (returncode p1),
                          Open ''grompp.out'', Write ''grompp.out'' (out p1),
                          Open ''grompp.err'', Write ''grompp.err'' (err p1),
                          Spawn mdrun_cmd, Exited mdrun_cmd (returncode p2),
                          Open ''mdrun.out'', Write ''mdrun.out'' (out p2),
                          Open ''mdrun.err'', Write ''mdrun.err'' (err p2)]\<rparr>)))"
  by (simp add: engine_cell_def Popen_communicate_def write_gmx_mdp_def f_write_def
      open_w_def Let_def split: option.splits prod.splits)

text \<open>
  Claim C1, as stated, fails: the cell has no guard between the two steps.  With a
  preprocess step that exits with status 1 and prints \<^verbatim>\<open>Fatal error\<close> on its error
  stream, the cell still starts the run step and returns normally; the message only
  lands in \<^verbatim>\<open>grompp.err\<close>.
\<close>

theorem engine_cell_failed_grompp_counterexample:
  "failing_grompp grompp_cmd (files (write_gmx_mdp ''nvt.mdp'' empty_world))
     = Some (\<lparr>returncode = 1, out = ''grompp'', err = ''Fatal error''\<rparr>,
             [''nvt.mdp'' \<mapsto> mdp_text])
   \<and> engine_cell failing_grompp empty_world =
       Returns \<lparr>files = [''nvt.mdp'' \<mapsto> mdp_text, ''grompp.out'' \<mapsto> ''grompp'',
                         ''grompp.err'' \<mapsto> ''Fatal error'', ''mdrun.out'' \<mapsto> ''done'',
                         ''mdrun.err'' \<mapsto> ''''],
                trace = [Open ''nvt.mdp'', Write ''nvt.mdp'' mdp_text,
                         Spawn grompp_cmd, Exited grompp_cmd 1,
                         Open ''grompp.out'', Write ''grompp.out'' ''grompp'',
                         Open ''grompp.err'', Write ''grompp.err'' ''Fatal error'',
                         Spawn mdrun_cmd, Exited mdrun_cmd 0,
                         Open ''mdrun.out'', Write ''mdrun.out'' ''done'',
                         Open ''mdrun.err'', Write ''mdrun.err'' '''']\<rparr>"
  by (simp add: engine_cell_summary files_write_gmx_mdp failing_grompp_def empty_world_def
      grompp_cmd_def mdrun_cmd_def)

text \<open>
  Claim C1, amended.  Whenever the preprocess step exits, with whatever status, the cell
  writes what the step printed to \<^verbatim>\<open>grompp.out\<close> and \<^verbatim>\<open>grompp.err\<close> (its error stream
  verbatim in the latter) and then starts the run step; it reports no error of its own.
\<close>

theorem engine_cell_runs_mdrun_after_any_grompp_exit:
  assumes "sh grompp_cmd (files (write_gmx_mdp ''nvt.mdp'' w0)) = Some (p1, fs1)"
  shows "\<exists>rest. trace (final_world (engine_cell sh w0)) =
           trace w0 @ [Open ''nvt.mdp'', Write ''nvt.mdp'' mdp_text,
                       Spawn grompp_cmd, Exited grompp_cmd (returncode p1),
                       Open ''grompp.out'', Write ''grompp.out'' (out p1),
                       Open ''grompp.err'', Write ''grompp.err'' (err p1),
                       Spawn mdrun_cmd] @ rest"
  using assms
  by (simp add: engine_cell_summary files_write_gmx_mdp split: option.splits prod.splits)

theorem engine_cell_runs_mdrun_after_any_grompp_exit_witness:
  "failing_grompp grompp_cmd (files (write_gmx_mdp ''nvt.mdp'' empty_world))
     = Some (\<lparr>returncode = 1, out = ''grompp'', err = ''Fatal error''\<rparr>,
             [''nvt.mdp'' \<mapsto> mdp_text])
   \<and> (\<exists>rest. trace (final_world (engine_cell failing_grompp empty_world)) =
           trace empty_world @ [Open ''nvt.mdp'', Write ''nvt.mdp'' mdp_text,
                       Spawn grompp_cmd, Exited grompp_cmd 1,
                       Open ''grompp.out'', Write ''grompp.out'' ''grompp'',
                       Open ''grompp.err'', Write ''grompp.err'' ''Fatal error'',
                       Spawn mdrun_cmd] @ rest)"
proof -
  have h: "failing_grompp grompp_cmd (files (write_gmx_mdp ''nvt.mdp'' empty_world))
     = Some (\<lparr>returncode = 1, out = ''grompp'', err = ''Fatal error''\<rparr>,
             [''nvt.mdp'' \<mapsto> mdp_text])"
    by (simp add: files_write_gmx_mdp failing_grompp_def empty_world_def)
  show ?thesis
    using h engine_cell_runs_mdrun_after_any_grompp_exit [of failing_grompp empty_world, OF h]
    by simp
qed

text \<open>
  Claim C7, as stated for every engine invocation, fails on the CHARMM-GUI notebook: its
  four engine commands are started with the shell escape, which blocks too but sends the
  output to the display.  With a shell whose commands print on both streams and touch no
  file, the four cells end with no file written at all.
\<close>

theorem charmm_engine_cells_no_log_counterexample:
  "charmm_engine_cells chatty_shell empty_world =
     Returns \<lparr>files = Map.empty,
              trace =
               [Spawn ''gmx grompp -f files/em.mdp -c box.gro -p box.top -o em -maxwarn 1'',
                Display ''o'', Display ''e'',
                Exited ''gmx grompp -f files/em.mdp -c box.gro -p box.top -o em -maxwarn 1'' 0,
                Spawn ''gmx mdrun -deffnm em'', Display ''o'', Display ''e'',
                Exited ''gmx mdrun -deffnm em'' 0,
                Spawn ''gmx grompp -f files/npt.mdp -c em.gro -p box.top -o npt'',
                Display ''o'', Display ''e'',
                Exited ''gmx grompp -f files/npt.mdp -c em.gro -p box.top -o npt'' 0,
                Spawn ''gmx mdrun -deffnm npt'', Display ''o'', Display ''e'',
                Exited ''gmx mdrun -deffnm npt'' 0]\<rparr>"
  by (simp add: charmm_engine_cells_def then_run_def shell_escape_def chatty_shell_def
      empty_world_def)

text \<open>
  Claim C7, amended to the cell that captures: in the TraPPE propane notebook each of the
  two engine processes is waited for before anything else happens.  If the preprocess
  step never exits the cell hangs right after starting it, with no log written; once it
  has exited, its standard output and its error stream are written, whole and unchanged,
  to \<^verbatim>\<open>grompp.out\<close> and \<^verbatim>\<open>grompp.err\<close>, and only then is the run step started; the same
  holds for the run step and \<^verbatim>\<open>mdrun.out\<close>, \<^verbatim>\<open>mdrun.err\<close>.
\<close>

theorem engine_cell_waits_then_logs:
  "(case sh grompp_cmd (files (write_gmx_mdp ''nvt.mdp'' w0)) of
      None \<Rightarrow>
        (\<exists>h. engine_cell sh w0 = Hangs h
           \<and> trace h = trace w0 @ [Open ''nvt.mdp'', Write ''nvt.mdp'' mdp_text,
                                   Spawn grompp_cmd])
    | Some (p1, fs1) \<Rightarrow>
       (case sh mdrun_cmd (fs1(''grompp.out'' \<mapsto> out p1, ''grompp.err'' \<mapsto> err p1)) of
          None \<Rightarrow>
            (\<exists>h. engine_cell sh w0 = Hangs h
               \<and> files h = fs1(''grompp.out'' \<mapsto> out p1, ''grompp.err'' \<mapsto> err p1)
               \<and> trace h = trace w0 @ [Open ''nvt.mdp'', Write ''nvt.mdp'' mdp_text,
                    Spawn grompp_cmd, Exited grompp_cmd (returncode p1),
                    Open ''grompp.out'', Write ''grompp.out'' (out p1),
                    Open ''grompp.err'', Write ''grompp.err'' (err p1),
                    Spawn mdrun_cmd])
        | Some (p2, fs2) \<Rightarrow>
            (\<exists>w. engine_cell sh w0 = Returns w
               \<and> files w = fs2(''mdrun.out'' \<mapsto> out p2, ''mdrun.err'' \<mapsto> err p2)
               \<and> trace w = trace w0 @ [Open ''nvt.mdp'', Write ''nvt.mdp'' mdp_text,
                    Spawn grompp_cmd, Exited grompp_cmd (returncode p1),
                    Open ''grompp.out'', Write ''grompp.out'' (out p1),
                    Open ''grompp.err'', Write ''grompp.err'' (err p1),
                    Spawn mdrun_cmd, Exited mdrun_cmd (returncode p2),
                    Open ''mdrun.out'', Write ''mdrun.out'' (out p2),
                    Open ''mdrun.err'', Write ''mdrun.err'' (err p2)])))"
  by (simp add: engine_cell_summary files_write_gmx_mdp split: option.splits prod.splits)

section \<open>Properties of compounds\<close>

lemma particles_nonempty: "particles c \<noteq> []"
proof (induction c rule: particles.induct)
  case (1 nm p cs b)
  show ?case
  proof (cases cs)
    case Nil
    then show ?thesis by simp
  next
    case (Cons c cs')
    with 1 have "particles c \<noteq> []" by simp
    with Cons show ?thesis by simp
  qed
qed

lemma rename_among_empty: "(rename_among i f cs = []) = (cs = [])"
  by (cases cs) auto

lemma particles_rename:
  "particles (rename_particle i f c) = (particles c)[i := set_name f (particles c ! i)]"
  "concat (map particles (rename_among i f cs))
     = (concat (map particles cs))[i := set_name f (concat (map particles cs) ! i)]"
proof (induction i f c and i f cs rule: rename_particle_rename_among.induct)
  case (1 i f nm p cs b)
  show ?case
  proof (cases "cs = []")
    case True
    then show ?thesis by (cases i) (simp_all add: set_name_def)
  next
    case False
    with 1 show ?thesis by (simp add: rename_among_empty)
  qed
next
  case (2 i f)
  show ?case by simp
next
  case (3 i f c cs)
  then show ?case
    by (auto simp: list_update_append nth_append)
qed

lemma bond_graph_rename: "bond_graph (rename_particle i f c) = bond_graph c"
  by (cases c) simp

lemma map_update_same: "g y = g (xs ! i) \<Longrightarrow> map g (xs[i := y]) = map g xs"
  by (induction xs arbitrary: i) (auto split: nat.splits)

lemma length_particles_rename:
  "length (particles (rename_particle i f c)) = length (particles c)"
  by (simp add: particles_rename(1))

lemma map_pos_rename: "map pos (particles (rename_particle i f c)) = map pos (particles c)"
  by (simp add: particles_rename(1) map_update_same set_name_def)

lemma blank_names_rename:
  "blank_names (rename_particle i f c) = blank_names c"
  "map blank_names (rename_among i f cs) = map blank_names cs"
proof (induction i f c and i f cs rule: rename_particle_rename_among.induct)
  case (1 i f nm p cs b)
  then show ?case by (cases "cs = []") (simp_all add: rename_among_empty)
next
  case (2 i f)
  show ?case by simp
next
  case (3 i f c cs)
  then show ?case by simp
qed

lemma without_bonds_add_bond: "without_bonds (add_bond b c) = without_bonds c"
  by (simp add: add_bond_def without_bonds_def)

lemma without_bonds_rename:
  "without_bonds (rename_particle i f c) = rename_particle i f (without_bonds c)"
  by (cases c) (simp add: without_bonds_def)

lemma particles_add_bond_pos:
  "map pos (particles (add_bond b c)) = map pos (particles c)"
  by (cases c) (simp add: add_bond_def)

lemma length_particles_add_bond:
  "length (particles (add_bond b c)) = length (particles c)"
  by (cases c) (simp add: add_bond_def)

lemma append_single_fun: "(@) [x] = (#) x"
  by (rule ext) simp

lemma rename_and_bond_ok:
  assumes "3 \<le> length (particles cmpd)"
  shows "rename_and_bond cmpd =
    Inr (add_bond (1, 2) (add_bond (0, 1)
      (rename_particle 2 (\<lambda>s. ''_'' @ drop 1 s)
        (rename_particle 1 (\<lambda>s. ''_'' @ s)
          (rename_particle 0 (\<lambda>s. ''_'' @ drop 1 s) cmpd)))))"
  using assms by (auto simp: rename_and_bond_def Let_def append_single_fun)

text \<open>
  Claim C9.  On a compound with at least three particles the editing cell returns, and
  what it returns has the same number of particles at the same positions in the same
  order; once particle names and the bond list are wiped, the edited compound and the
  original are equal, so nothing else has changed.
\<close>

theorem rename_and_bond_frame:
  assumes "3 \<le> n_particles cmpd"
  shows "\<exists>c. rename_and_bond cmpd = Inr c
           \<and> n_particles c = n_particles cmpd
           \<and> map pos (particles c) = map pos (particles cmpd)
           \<and> blank_names (without_bonds c) = blank_names (without_bonds cmpd)"
  using assms
  by (simp add: rename_and_bond_ok n_particles_def length_particles_add_bond
      length_particles_rename particles_add_bond_pos map_pos_rename
      without_bonds_add_bond without_bonds_rename blank_names_rename)

theorem rename_and_bond_frame_witness:
  "3 \<le> n_particles propane_example
   \<and> (\<exists>c. rename_and_bond propane_example = Inr c
           \<and> n_particles c = n_particles propane_example
           \<and> map pos (particles c) = map pos (particles propane_example)
           \<and> blank_names (without_bonds c) = blank_names (without_bonds propane_example))"
proof -
  have h: "3 \<le> n_particles propane_example"
    by (simp add: n_particles_def propane_example_def)
  show ?thesis
    using h rename_and_bond_frame [OF h] by simp
qed

subsection \<open>Replication\<close>

lemma particles_translate: "particles (translate v c) = map (translate v) (particles c)"
proof (induction v c rule: translate.induct)
  case (1 v nm p cs b)
  show ?case
  proof (cases "cs = []")
    case True
    then show ?thesis by simp
  next
    case False
    with 1 have "map (\<lambda>x. particles (translate v x)) cs
        = map (\<lambda>x. map (translate v) (particles x)) cs"
      by (intro map_cong) simp_all
    then have "concat (map (\<lambda>x. particles (translate v x)) cs)
        = concat (map (\<lambda>x. map (translate v) (particles x)) cs)"
      by (rule arg_cong)
    with False show ?thesis by (simp add: map_concat comp_def)
  qed
qed

lemma n_particles_translate: "n_particles (translate v c) = n_particles c"
  by (simp add: n_particles_def particles_translate)

lemma bond_graph_translate: "bond_graph (translate v c) = bond_graph c"
  by (cases c) simp

lemma n_bonds_translate: "n_bonds (translate v c) = n_bonds c"
  by (simp add: n_bonds_def bond_graph_translate)

lemma children_foldl_add:
  "children (foldl add acc cs) = children acc @ map without_bonds cs"
  by (induction cs arbitrary: acc) (simp_all add: add_def Let_def without_bonds_def)

lemma n_bonds_foldl_add:
  "n_bonds (foldl add acc cs) = n_bonds acc + sum_list (map n_bonds cs)"
  by (induction cs arbitrary: acc) (simp_all add: add_def Let_def n_bonds_def)

lemma n_particles_without_bonds: "n_particles (without_bonds c) = n_particles c"
  by (cases c) (simp add: without_bonds_def n_particles_def)

lemma length_concat_particles:
  "length (concat (map particles cs)) = sum_list (map n_particles cs)"
  by (induction cs) (simp_all add: n_particles_def)

lemma n_particles_children:
  "ks \<noteq> [] \<Longrightarrow> n_particles (Compound nm p ks b) = sum_list (map n_particles ks)"
  using length_concat_particles [of ks] by (simp add: n_particles_def)

lemma n_particles_Compound_of:
  assumes "cs \<noteq> []"
  shows "n_particles (Compound_of cs) = sum_list (map n_particles cs)"
proof -
  obtain nm p ks b where c: "Compound_of cs = Compound nm p ks b"
    by (cases "Compound_of cs") auto
  have "children (Compound_of cs) = map without_bonds cs"
    by (simp add: Compound_of_def children_foldl_add empty_compound_def)
  with c have ks: "ks = map without_bonds cs" by simp
  with assms have "ks \<noteq> []" by simp
  then have "n_particles (Compound_of cs) = sum_list (map n_particles ks)"
    unfolding c by (rule n_particles_children)
  also have "\<dots> = sum_list (map n_particles cs)"
    by (simp add: ks comp_def n_particles_without_bonds)
  finally show ?thesis .
qed

lemma n_bonds_Compound_of: "n_bonds (Compound_of cs) = sum_list (map n_bonds cs)"
  by (simp add: Compound_of_def n_bonds_foldl_add) (simp add: n_bonds_def empty_compound_def)

lemma length_Grid3DPattern: "length (Grid3DPattern n m l) = n * m * l"
  by (simp add: Grid3DPattern_def length_concat comp_def sum_list_triv)

lemma length_methane_grid: "length methane_grid = 8"
  by (simp add: methane_grid_def scale_def length_Grid3DPattern)

lemma n_particles_replicate_on_grid:
  "n_particles (replicate_on_grid c) = 8 * n_particles c"
proof -
  have ne: "apply_pattern methane_grid c \<noteq> []"
    using length_methane_grid by (auto simp: apply_pattern_def)
  have "n_particles (replicate_on_grid c)
      = sum_list (map n_particles (apply_pattern methane_grid c))"
    unfolding replicate_on_grid_def by (rule n_particles_Compound_of [OF ne])
  also have "\<dots> = 8 * n_particles c"
    by (simp add: apply_pattern_def comp_def n_particles_translate sum_list_triv
        length_methane_grid)
  finally show ?thesis .
qed

lemma n_bonds_replicate_on_grid: "n_bonds (replicate_on_grid c) = 8 * n_bonds c"
  by (simp add: replicate_on_grid_def n_bonds_Compound_of apply_pattern_def comp_def
      n_bonds_translate sum_list_triv length_methane_grid)

text \<open>
  Claim C2.  A prototype with three particles and no bonds, given the two bonds 0-1 and
  1-2 by the editing cell and then copied onto the 2 x 2 x 2 lattice scaled by 0.4, makes
  a compound of 24 particles and 16 bonds.
\<close>

theorem lattice_of_bonded_prototype:
  assumes "n_particles proto = 3" and "bond_graph proto = []"
  shows "\<exists>c. rename_and_bond proto = Inr c
           \<and> n_particles (replicate_on_grid c) = 24
           \<and> n_bonds (replicate_on_grid c) = 16"
proof -
  let ?r = "rename_particle 2 (\<lambda>s. ''_'' @ drop 1 s)
        (rename_particle 1 (\<lambda>s. ''_'' @ s)
          (rename_particle 0 (\<lambda>s. ''_'' @ drop 1 s) proto))"
  let ?c = "add_bond (1, 2) (add_bond (0, 1) ?r)"
  from assms(1) have ok: "rename_and_bond proto = Inr ?c"
    by (simp add: rename_and_bond_ok n_particles_def)
  have "bond_graph ?r = []"
    using assms(2) by (simp add: bond_graph_rename)
  then have "bond_graph ?c = [(0, 1), (1, 2)]"
    by (simp add: add_bond_def)
  then have b: "n_bonds ?c = 2"
    by (simp add: n_bonds_def)
  have p: "n_particles ?c = 3"
    using assms(1)
    by (simp add: n_particles_def length_particles_add_bond length_particles_rename)
  show ?thesis
  proof (intro exI conjI)
    show "rename_and_bond proto = Inr ?c" by (rule ok)
    show "n_particles (replicate_on_grid ?c) = 24"
      unfolding n_particles_replicate_on_grid p by simp
    show "n_bonds (replicate_on_grid ?c) = 16"
      unfolding n_bonds_replicate_on_grid b by simp
  qed
qed

theorem lattice_of_bonded_prototype_witness:
  "n_particles propane_example = 3 \<and> bond_graph propane_example = []
   \<and> (\<exists>c. rename_and_bond propane_example = Inr c
           \<and> n_particles (replicate_on_grid c) = 24
           \<and> n_bonds (replicate_on_grid c) = 16)"
proof -
  have h1: "n_particles propane_example = 3"
    by (simp add: n_particles_def propane_example_def)
  have h2: "bond_graph propane_example = []"
    by (simp add: propane_example_def)
  show ?thesis
    using h1 h2 lattice_of_bonded_prototype [OF h1 h2] by simp
qed

lemma max_z_returns: "\<exists>z. max_z c = Inr z"
proof -
  obtain p ps where "particles c = p # ps"
    using particles_nonempty [of c] by (cases "particles c") auto
  then show ?thesis by (simp add: max_z_def)
qed

text \<open>
  Claim C8.  The methanol copies are placed by \<^verbatim>\<open>methane_grid\<close>; the grid built for them
  is never used.  Whatever scale \<^verbatim>\<open>methanol_grid\<close> is given, the mixture is the same, and
  the cells do return one.
\<close>

theorem mixture_box_ignores_methanol_grid:
  "mixture_box s1 methane_cmpd methanol = mixture_box s2 methane_cmpd methanol
   \<and> (\<exists>m. mixture_box s1 methane_cmpd methanol = Inr m)"
proof -
  obtain z where "max_z (Compound_of (apply_pattern methane_grid methane_cmpd)) = Inr z"
    using max_z_returns by blast
  then show ?thesis
    by (simp add: mixture_box_def Let_def)
qed

section \<open>Properties of the element inference\<close>

lemma infer_kind_marker: "infer_kind (CHR ''_'' # rest) = CustomBead (CHR ''_'' # rest)"
  by (simp add: infer_kind_def)

lemma three_or_more: "3 \<le> length xs \<Longrightarrow> \<exists>a b d rest. xs = a # b # d # rest"
  by (auto simp: numeral_3_eq_3 Suc_le_length_iff)

lemma map_name_particles_add_bond:
  "map name (particles (add_bond b c)) = map name (particles c)"
  by (cases c) (simp add: add_bond_def)

lemma take3_names_rename_and_bond:
  assumes "3 \<le> n_particles cmpd"
  shows "\<exists>c. rename_and_bond cmpd = Inr c
    \<and> map name (take 3 (particles c)) =
        [CHR ''_'' # drop 1 (name (particles cmpd ! 0)),
         CHR ''_'' # name (particles cmpd ! 1),
         CHR ''_'' # drop 1 (name (particles cmpd ! 2))]"
proof -
  from assms obtain a b d rest where ps: "particles cmpd = a # b # d # rest"
    using three_or_more [of "particles cmpd"] by (auto simp: n_particles_def)
  let ?r = "rename_particle 2 (\<lambda>s. ''_'' @ drop 1 s)
        (rename_particle 1 (\<lambda>s. ''_'' @ s)
          (rename_particle 0 (\<lambda>s. ''_'' @ drop 1 s) cmpd))"
  let ?c = "add_bond (1, 2) (add_bond (0, 1) ?r)"
  have ok: "rename_and_bond cmpd = Inr ?c"
    using assms by (simp add: rename_and_bond_ok n_particles_def)
  have "particles ?r = set_name (\<lambda>s. ''_'' @ drop 1 s) a # set_name (\<lambda>s. ''_'' @ s) b
           # set_name (\<lambda>s. ''_'' @ drop 1 s) d # rest"
    by (simp add: particles_rename(1) ps numeral_2_eq_2)
  then have "map name (particles ?c)
      = (CHR ''_'' # drop 1 (name a)) # (CHR ''_'' # name b)
          # (CHR ''_'' # drop 1 (name d)) # map name rest"
    by (simp add: map_name_particles_add_bond set_name_def)
  then have "take 3 (map name (particles ?c))
      = [CHR ''_'' # drop 1 (name a), CHR ''_'' # name b, CHR ''_'' # drop 1 (name d)]"
    by (simp add: numeral_3_eq_3)
  then have "map name (take 3 (particles ?c)) =
        [CHR ''_'' # drop 1 (name (particles cmpd ! 0)),
         CHR ''_'' # name (particles cmpd ! 1),
         CHR ''_'' # drop 1 (name (particles cmpd ! 2))]"
    by (simp add: take_map ps)
  with ok show ?thesis by (intro exI [of _ ?c] conjI)
qed

text \<open>
  Claim C4.  A name that begins with the underscore is typed as a custom bead whatever
  follows the underscore, also when what follows is an element symbol.  This covers the
  particles the HOOMD notebook names \<^verbatim>\<open>_CH4\<close>, \<^verbatim>\<open>_CH3\<close> and \<^verbatim>\<open>_OH\<close>, and the three
  particles the propane notebook renames: whatever they were called before, after the
  editing cell each of them is a custom bead.
\<close>

theorem underscore_names_are_custom:
  "infer_kind (CHR ''_'' # rest) = CustomBead (CHR ''_'' # rest)
   \<and> map (\<lambda>p. infer_kind (name p)) [methane_particle, ch3, oh]
        = [CustomBead ''_CH4'', CustomBead ''_CH3'', CustomBead ''_OH'']
   \<and> (3 \<le> n_particles cmpd \<longrightarrow>
        (\<exists>c. rename_and_bond cmpd = Inr c
           \<and> map (\<lambda>p. infer_kind (name p)) (take 3 (particles c))
               = map (\<lambda>p. CustomBead (name p)) (take 3 (particles c))))"
proof (intro conjI impI)
  show "infer_kind (CHR ''_'' # rest) = CustomBead (CHR ''_'' # rest)"
    by (rule infer_kind_marker)
  show "map (\<lambda>p. infer_kind (name p)) [methane_particle, ch3, oh]
        = [CustomBead ''_CH4'', CustomBead ''_CH3'', CustomBead ''_OH'']"
    by (simp add: methane_particle_def ch3_def oh_def Particle_def infer_kind_marker)
next
  assume "3 \<le> n_particles cmpd"
  from take3_names_rename_and_bond [OF this] obtain c where c: "rename_and_bond cmpd = Inr c"
    and names: "map name (take 3 (particles c)) =
        [CHR ''_'' # drop 1 (name (particles cmpd ! 0)),
         CHR ''_'' # name (particles cmpd ! 1),
         CHR ''_'' # drop 1 (name (particles cmpd ! 2))]"
    by (elim exE conjE)
  have "map infer_kind (map name (take 3 (particles c)))
      = map CustomBead (map name (take 3 (particles c)))"
    unfolding names by (simp add: infer_kind_marker)
  then have "map (\<lambda>p. infer_kind (name p)) (take 3 (particles c))
               = map (\<lambda>p. CustomBead (name p)) (take 3 (particles c))"
    by (simp add: comp_def)
  with c show "\<exists>c. rename_and_bond cmpd = Inr c
           \<and> map (\<lambda>p. infer_kind (name p)) (take 3 (particles c))
               = map (\<lambda>p. CustomBead (name p)) (take 3 (particles c))"
    by (intro exI [of _ c] conjI)
qed

theorem underscore_names_are_custom_witness:
  "infer_kind ''C'' = Element ''C''
   \<and> infer_kind (CHR ''_'' # ''C'') = CustomBead (CHR ''_'' # ''C'')
   \<and> 3 \<le> n_particles propane_example
   \<and> map name (particles propane_example) = [''1CH3'', ''C'', ''3CH3'']
   \<and> (\<exists>c. rename_and_bond propane_example = Inr c
           \<and> map (\<lambda>p. infer_kind (name p)) (take 3 (particles c))
               = map (\<lambda>p. CustomBead (name p)) (take 3 (particles c)))"
proof -
  have h: "3 \<le> n_particles propane_example"
    by (simp add: n_particles_def propane_example_def)
  have e: "infer_kind ''C'' = Element ''C''"
    by (simp add: infer_kind_def periodic_symbols_def)
  have n: "map name (particles propane_example) = [''1CH3'', ''C'', ''3CH3'']"
    by (simp add: propane_example_def)
  show ?thesis
    using h e n underscore_names_are_custom [of "''C''" propane_example] by simp
qed

section \<open>Properties of the accumulation\<close>

lemma length_pair_histogram: "length (pair_histogram b r system) = b"
  by (cases system) (simp add: pair_histogram_def Let_def)

lemma compute_keep:
  assumes "points \<noteq> []" and "2 * r_max r \<le> lx" and "2 * r_max r \<le> ly"
    and "2 * r_max r \<le> lz"
  shows "compute ((lx, ly, lz), points) False r =
    Inr (r\<lparr>bin_counts := map2 (+) (bin_counts r)
                              (pair_histogram (bins r) (r_max r) ((lx, ly, lz), points)),
            frame_counter := Suc (frame_counter r)\<rparr>)"
  using assms by (simp add: compute_def Let_def not_less [symmetric])

lemma positions_selected:
  assumes "typename \<in> set (types f)" and "length (typeid f) \<le> length (position f)"
  shows "\<exists>ids. get_ids f typename = Inr ids \<and> positions_at f ids = Inr (selected f typename)"
proof -
  let ?ids = "filter (\<lambda>i. typeid f ! i = length (takeWhile (\<lambda>t. t \<noteq> typename) (types f)))
                  [0..<length (typeid f)]"
  have "list_all (\<lambda>i. i < length (position f)) ?ids"
    using assms(2) by (auto simp: list_all_iff)
  then have "positions_at f ?ids = Inr (selected f typename)"
    by (simp add: positions_at_def selected_def)
  moreover have "get_ids f typename = Inr ?ids"
    using assms(1) by (simp add: get_ids_def)
  ultimately show ?thesis by (intro exI [of _ ?ids] conjI)
qed

lemma rdf_step_readable:
  assumes "readable f" and "r_max a = 2" and "r_max b = 2" and "r_max c = 2"
  shows "rdf_step f (a, b, c) =
    Inr (a\<lparr>bin_counts := map2 (+) (bin_counts a)
                              (pair_histogram (bins a) 2 (box f, selected f ''CH3'')),
            frame_counter := Suc (frame_counter a)\<rparr>,
         b\<lparr>bin_counts := map2 (+) (bin_counts b)
                              (pair_histogram (bins b) 2 (box f, selected f ''CH4'')),
            frame_counter := Suc (frame_counter b)\<rparr>,
         c\<lparr>bin_counts := map2 (+) (bin_counts c)
                              (pair_histogram (bins c) 2 (box f, selected f ''OH'')),
            frame_counter := Suc (frame_counter c)\<rparr>)"
proof -
  from assms(1) have len: "length (typeid f) \<le> length (position f)"
    and t3: "''CH3'' \<in> set (types f)" and t4: "''CH4'' \<in> set (types f)"
    and to: "''OH'' \<in> set (types f)"
    and n3: "selected f ''CH3'' \<noteq> []" and n4: "selected f ''CH4'' \<noteq> []"
    and no: "selected f ''OH'' \<noteq> []"
    by (simp_all add: readable_def)
  obtain lx ly lz where bx: "box f = (lx, ly, lz)"
    by (cases "box f") auto
  with assms(1) have wide: "2 * (2::rat) \<le> lx" "2 * (2::rat) \<le> ly" "2 * (2::rat) \<le> lz"
    by (simp_all add: readable_def)
  from positions_selected [OF t3 len] obtain i3 where
    i3: "get_ids f ''CH3'' = Inr i3" "positions_at f i3 = Inr (selected f ''CH3'')"
    by (elim exE conjE)
  from positions_selected [OF t4 len] obtain i4 where
    i4: "get_ids f ''CH4'' = Inr i4" "positions_at f i4 = Inr (selected f ''CH4'')"
    by (elim exE conjE)
  from positions_selected [OF to len] obtain io where
    io: "get_ids f ''OH'' = Inr io" "positions_at f io = Inr (selected f ''OH'')"
    by (elim exE conjE)
  have c3: "compute (box f, selected f ''CH3'') False a =
      Inr (a\<lparr>bin_counts := map2 (+) (bin_counts a)
                              (pair_histogram (bins a) 2 (box f, selected f ''CH3'')),
            frame_counter := Suc (frame_counter a)\<rparr>)"
    unfolding bx using compute_keep [of "selected f ''CH3''" a lx ly lz] n3 wide assms(2)
    by simp
  have c4: "compute (box f, selected f ''CH4'') False b =
      Inr (b\<lparr>bin_counts := map2 (+) (bin_counts b)
                              (pair_histogram (bins b) 2 (box f, selected f ''CH4'')),
            frame_counter := Suc (frame_counter b)\<rparr>)"
    unfolding bx using compute_keep [of "selected f ''CH4''" b lx ly lz] n4 wide assms(3)
    by simp
  have co: "compute (box f, selected f ''OH'') False c =
      Inr (c\<lparr>bin_counts := map2 (+) (bin_counts c)
                              (pair_histogram (bins c) 2 (box f, selected f ''OH'')),
            frame_counter := Suc (frame_counter c)\<rparr>)"
    unfolding bx using compute_keep [of "selected f ''OH''" c lx ly lz] no wide assms(4)
    by simp
  show ?thesis
    by (simp add: rdf_step_def and_then_def i3 i4 io c3 c4 co)
qed

lemma map2_zeros: "length h = n \<Longrightarrow> map2 (+) (replicate n (0::nat)) h = h"
  by (induction h arbitrary: n) auto

lemma map2_add_same:
  "length h = length h' \<Longrightarrow> (map2 (+) h h' = h') = (h = replicate (length h') (0::nat))"
  by (induction h h' rule: list_induct2) auto

lemma counts_fresh_step:
  assumes "readable f"
  shows "\<exists>s. rdf_loop [f] fresh_rdfs = Inr s
    \<and> counts s = (pair_histogram 50 2 (box f, selected f ''CH3''),
                   pair_histogram 50 2 (box f, selected f ''CH4''),
                   pair_histogram 50 2 (box f, selected f ''OH''))"
  by (simp add: fresh_rdfs_def rdf_step_readable [OF assms] counts_def RDF_def and_then_def
      map2_zeros length_pair_histogram)

lemma counts_two_steps:
  assumes "readable f1" and "readable f2"
  shows "\<exists>s. rdf_loop [f1, f2] fresh_rdfs = Inr s
    \<and> counts s =
        (map2 (+) (pair_histogram 50 2 (box f1, selected f1 ''CH3''))
                  (pair_histogram 50 2 (box f2, selected f2 ''CH3'')),
         map2 (+) (pair_histogram 50 2 (box f1, selected f1 ''CH4''))
                  (pair_histogram 50 2 (box f2, selected f2 ''CH4'')),
         map2 (+) (pair_histogram 50 2 (box f1, selected f1 ''OH''))
                  (pair_histogram 50 2 (box f2, selected f2 ''OH'')))"
  by (simp add: fresh_rdfs_def rdf_step_readable [OF assms(1)] rdf_step_readable [OF assms(2)]
      counts_def RDF_def and_then_def map2_zeros length_pair_histogram)

text \<open>
  Claim C6, as stated, fails in its conclusion: the accumulated counts need not differ
  from those of the final frame alone.  On a trajectory of two dilute frames in a box of
  side 5, each with a single particle of every type, no frame has a pair to count, and the loop over both
  frames ends with the same (empty) bin counts as the loop over the last frame only.
\<close>

theorem rdf_loop_dilute_counterexample:
  "map_sum id counts (rdf_loop [dilute_frame, dilute_frame] fresh_rdfs) = Inr no_counts
   \<and> map_sum id counts (rdf_loop [dilute_frame] fresh_rdfs) = Inr no_counts"
  by code_simp

text \<open>
  Claim C6, amended.  The accumulators persist from frame to frame: over two frames that
  the loop can process (each type selected has a particle, and the box is more than twice
  \<^verbatim>\<open>r_max\<close> wide) the loop returns, and the bin counts it ends with are the bin-wise sum of
  the counts each frame gives on its own.  They differ from the counts of the final frame
  alone exactly when the first frame has counted at least one pair.
\<close>

theorem rdf_loop_accumulates:
  assumes "readable f1" and "readable f2"
  shows "\<exists>s s1 s2. rdf_loop [f1, f2] fresh_rdfs = Inr s
           \<and> rdf_loop [f1] fresh_rdfs = Inr s1
           \<and> rdf_loop [f2] fresh_rdfs = Inr s2
           \<and> counts s = add_counts (counts s1) (counts s2)
           \<and> (counts s = counts s2) = (counts s1 = no_counts)"
proof -
  from counts_two_steps [OF assms] obtain s where
    s: "rdf_loop [f1, f2] fresh_rdfs = Inr s"
    "counts s =
        (map2 (+) (pair_histogram 50 2 (box f1, selected f1 ''CH3''))
                  (pair_histogram 50 2 (box f2, selected f2 ''CH3'')),
         map2 (+) (pair_histogram 50 2 (box f1, selected f1 ''CH4''))
                  (pair_histogram 50 2 (box f2, selected f2 ''CH4'')),
         map2 (+) (pair_histogram 50 2 (box f1, selected f1 ''OH''))
                  (pair_histogram 50 2 (box f2, selected f2 ''OH'')))"
    by (elim exE conjE)
  from counts_fresh_step [OF assms(1)] obtain s1 where
    s1: "rdf_loop [f1] fresh_rdfs = Inr s1"
    "counts s1 = (pair_histogram 50 2 (box f1, selected f1 ''CH3''),
                   pair_histogram 50 2 (box f1, selected f1 ''CH4''),
                   pair_histogram 50 2 (box f1, selected f1 ''OH''))"
    by (elim exE conjE)
  from counts_fresh_step [OF assms(2)] obtain s2 where
    s2: "rdf_loop [f2] fresh_rdfs = Inr s2"
    "counts s2 = (pair_histogram 50 2 (box f2, selected f2 ''CH3''),
                   pair_histogram 50 2 (box f2, selected f2 ''CH4''),
                   pair_histogram 50 2 (box f2, selected f2 ''OH''))"
    by (elim exE conjE)
  have sum: "counts s = add_counts (counts s1) (counts s2)"
    by (simp add: s(2) s1(2) s2(2) add_counts_def)
  have "(counts s = counts s2) = (counts s1 = no_counts)"
    unfolding s(2) s1(2) s2(2) no_counts_def
    by (simp add: map2_add_same length_pair_histogram)
  with s(1) s1(1) s2(1) sum show ?thesis
    by (intro exI [of _ s] exI [of _ s1] exI [of _ s2] conjI)
qed

theorem rdf_loop_accumulates_witness:
  "readable paired_frame \<and> readable dilute_frame
   \<and> (\<exists>s s1 s2. rdf_loop [paired_frame, dilute_frame] fresh_rdfs = Inr s
           \<and> rdf_loop [paired_frame] fresh_rdfs = Inr s1
           \<and> rdf_loop [dilute_frame] fresh_rdfs = Inr s2
           \<and> counts s = add_counts (counts s1) (counts s2)
           \<and> (counts s = counts s2) = (counts s1 = no_counts))"
proof -
  have h1: "readable paired_frame"
    by (simp add: readable_def paired_frame_def selected_def)
  have h2: "readable dilute_frame"
    by (simp add: readable_def dilute_frame_def selected_def)
  show ?thesis
    using h1 h2 rdf_loop_accumulates [OF h1 h2] by simp
qed

end
